theory Spec2Isabelle
  imports Complex_Main "HOL-Library.Char_ord" "HOL-Library.List_Lexorder" "HOL-Library.Multiset"
begin

section \<open>Calendar arithmetic\<close>

text \<open>
  The program (\<^verbatim>\<open>Gannt.py\<close>) handles dates through Python's \<^verbatim>\<open>datetime\<close> and
  pandas' \<^verbatim>\<open>Timestamp\<close>. A calendar date is modelled by its proleptic Gregorian ordinal
  (\<^verbatim>\<open>date.toordinal()\<close>: day 1 is 0001-01-01), and a timestamp by the number of seconds
  since the midnight that starts ordinal 0, so that \<open>ts div 86400\<close> is the ordinal of its day and
  \<open>ts mod 86400\<close> the second of the day. Fractions of a second play no part in the program's
  logic and are left out. The conversions follow CPython's \<^verbatim>\<open>_ymd2ord\<close> and
  \<^verbatim>\<open>_ord2ymd\<close>.
\<close>

type_synonym date = int
type_synonym timestamp = int

definition is_leap :: "int \<Rightarrow> bool" where
  "is_leap y = (y mod 4 = 0 \<and> (y mod 100 \<noteq> 0 \<or> y mod 400 = 0))"

definition days_before_year :: "int \<Rightarrow> int" where
  "days_before_year year = (let y = year - 1 in y * 365 + y div 4 - y div 100 + y div 400)"

definition days_in_month :: "int \<Rightarrow> int \<Rightarrow> int" where
  "days_in_month year month =
     (if month = 2 then (if is_leap year then 29 else 28)
      else if month = 4 \<or> month = 6 \<or> month = 9 \<or> month = 11 then 30 else 31)"

fun days_before_month_tab :: "int \<Rightarrow> int" where
  "days_before_month_tab m =
     (if m = 1 then 0 else if m = 2 then 31 else if m = 3 then 59 else if m = 4 then 90
      else if m = 5 then 120 else if m = 6 then 151 else if m = 7 then 181
      else if m = 8 then 212 else if m = 9 then 243 else if m = 10 then 273
      else if m = 11 then 304 else 334)"

definition days_before_month :: "int \<Rightarrow> int \<Rightarrow> int" where
  "days_before_month year month =
     days_before_month_tab month + (if 2 < month \<and> is_leap year then 1 else 0)"

definition ymd2ord :: "int \<Rightarrow> int \<Rightarrow> int \<Rightarrow> date" where
  "ymd2ord year month day = days_before_year year + days_before_month year month + day"

definition ord2ymd :: "date \<Rightarrow> int \<times> int \<times> int" where
  "ord2ymd ordinal =
     (let n = ordinal - 1;
          n400 = n div 146097; n = n mod 146097;
          n100 = n div 36524; n = n mod 36524;
          n4 = n div 1461; n = n mod 1461;
          n1 = n div 365; n = n mod 365;
          year = n400 * 400 + 1 + n100 * 100 + n4 * 4 + n1
      in if n1 = 4 \<or> n100 = 4 then (year - 1, 12, 31)
         else
           let leapyear = (n1 = 3 \<and> (n4 \<noteq> 24 \<or> n100 = 3));
               month = (n + 50) div 32;
               preceding = days_before_month_tab month + (if 2 < month \<and> leapyear then 1 else 0)
           in if n < preceding
              then let month' = month - 1;
                       preceding' = preceding -
                         ((if month' = 2 then 28
                           else if month' = 4 \<or> month' = 6 \<or> month' = 9 \<or> month' = 11 then 30
                           else 31)
                          + (if month' = 2 \<and> leapyear then 1 else 0))
                   in (year, month', n - preceding' + 1)
              else (year, month, n - preceding + 1))"

definition month_of :: "date \<Rightarrow> int \<times> int" where
  "month_of d = (case ord2ymd d of (y, m, _) \<Rightarrow> (y, m))"

text \<open>\<^verbatim>\<open>date.weekday()\<close>: Monday is 0, Sunday is 6.\<close>

definition weekday :: "date \<Rightarrow> int" where
  "weekday d = (d + 6) mod 7"

definition seconds_per_day :: int where
  "seconds_per_day = 86400"

definition midnight :: "date \<Rightarrow> timestamp" where
  "midnight d = d * seconds_per_day"

definition mk_datetime :: "int \<Rightarrow> int \<Rightarrow> int \<Rightarrow> int \<Rightarrow> int \<Rightarrow> int \<Rightarrow> timestamp" where
  "mk_datetime y m d hh mm ss = midnight (ymd2ord y m d) + hh * 3600 + mm * 60 + ss"

definition date_of :: "timestamp \<Rightarrow> date" where
  "date_of ts = ts div seconds_per_day"

text \<open>\<^verbatim>\<open>Timestamp.normalize()\<close> / \<^verbatim>\<open>Series.dt.normalize()\<close>: the time of day is set to midnight.\<close>

definition normalize :: "timestamp \<Rightarrow> timestamp" where
  "normalize ts = ts - ts mod seconds_per_day"

text \<open>\<^verbatim>\<open>dt + timedelta(days=n)\<close>.\<close>

definition plus_days :: "timestamp \<Rightarrow> int \<Rightarrow> timestamp" where
  "plus_days ts n = ts + n * seconds_per_day"

section \<open>The task table\<close>

text \<open>
  The task store is the pandas DataFrame \<^verbatim>\<open>st.session_state.df\<close>: an ordered list of rows with
  the thirteen columns of the seed data. A cell of a text column is \<open>None\<close> when pandas holds
  NaN there. The dtype of the date columns changes along the script (text as read from a file,
  \<^verbatim>\<open>datetime64\<close> after \<^verbatim>\<open>pd.to_datetime\<close>, mixed text and timestamps after a recurring task is
  appended to the displayed table), and so does the dtype of \<^verbatim>\<open>Progress\<close> and \<^verbatim>\<open>Time Spent\<close>
  (an object column that may hold the empty string when the normalisation block runs, a numeric
  column for the aggregations). The record is therefore parametric in the type \<open>'d\<close> of a date
  cell and the type \<open>'n\<close> of a progress / time cell. Amounts are integers, as in the seed data.
\<close>

record ('d, 'n) row =
  Task :: "string option"
  Subtask :: "string option"
  Start_Date :: 'd
  End_Date :: 'd
  Assignee :: "string option"
  Status :: "string option"
  Progress :: 'n
  Priority :: "string option"
  Time_Spent :: 'n
  Comments :: "string option"
  Dependencies :: "string option"
  Budget :: "int option"
  Cost :: "int option"

text \<open>A cell of an object column that is meant to hold numbers: NaN, a number, or text.\<close>

datatype cell = NaN | Num int | Str string

text \<open>A cell of a date column of mixed content: NaT / NaN, a timestamp, or text.\<close>

datatype dcell = NaT | Stamp timestamp | DateStr string

text \<open>A table with \<^verbatim>\<open>datetime64\<close> date columns and numeric progress: what the charts read.\<close>

type_synonym frame = "(timestamp option, int option) row list"

text \<open>
  The Python exceptions the modelled code can raise: an unbound local name, and the two that
  Python's division of integers raises.
\<close>

datatype error = UnboundLocalError | ZeroDivisionError | OverflowError

section \<open>Recurring tasks\<close>

text \<open>
  \<^verbatim>\<open>dateutil.rrule\<close> is a library: the model gives the occurrences it documents. With
  \<^verbatim>\<open>dtstart\<close> and \<^verbatim>\<open>until\<close> both dates (as \<^verbatim>\<open>st.date_input\<close> returns them), the rule yields, in
  ascending order, the midnight of every day from \<^verbatim>\<open>dtstart\<close> to \<^verbatim>\<open>until\<close> inclusive that the
  \<^verbatim>\<open>byweekday\<close> filter accepts. \<open>rrule_scan\<close> walks the days one by one.
\<close>

function rrule_scan :: "(date \<Rightarrow> bool) \<Rightarrow> date \<Rightarrow> date \<Rightarrow> date list" where
  "rrule_scan byday d until =
     (if until < d then []
      else (if byday d then [d] else []) @ rrule_scan byday (d + 1) until)"
  by pat_completeness auto
termination
  by (relation "measure (\<lambda>(byday, d, until). nat (until + 1 - d))") auto

declare rrule_scan.simps [simp del]

text \<open>\<^verbatim>\<open>rrule(freq=WEEKLY, byweekday=w, dtstart=start_date, until=end_date)\<close>.\<close>

definition rrule_weekly :: "int \<Rightarrow> date \<Rightarrow> date \<Rightarrow> timestamp list" where
  "rrule_weekly w dtstart until = map midnight (rrule_scan (\<lambda>d. weekday d = w) dtstart until)"

text \<open>
  \<^verbatim>\<open>rrule(freq=MONTHLY, byweekday=FR(-1), ...)\<close>: a day is the last weekday \<open>w\<close> of its month
  when it falls on \<open>w\<close> and the same weekday a week later is in another month.
\<close>

definition last_weekday_of_month :: "int \<Rightarrow> date \<Rightarrow> bool" where
  "last_weekday_of_month w d = (weekday d = w \<and> month_of (d + 7) \<noteq> month_of d)"

definition rrule_monthly_last :: "int \<Rightarrow> date \<Rightarrow> date \<Rightarrow> timestamp list" where
  "rrule_monthly_last w dtstart until = map midnight (rrule_scan (last_weekday_of_month w) dtstart until)"

text \<open>
  The row that the loop body of \<^verbatim>\<open>add_recurring_task_advanced\<close> appends: the five keys of the
  dictionary, every other column NaN.
\<close>

definition recurring_row :: "string \<Rightarrow> timestamp \<Rightarrow> (dcell, int option) row" where
  "recurring_row task_name dt =
     \<lparr> Task = Some task_name, Subtask = None,
       Start_Date = Stamp dt, End_Date = Stamp (plus_days dt 1),
       Assignee = None, Status = Some ''Not Started'', Progress = Some 0,
       Priority = None, Time_Spent = None, Comments = None, Dependencies = None,
       Budget = None, Cost = None \<rparr>"

text \<open>The \<^verbatim>\<open>for dt in rule\<close> loop: one \<^verbatim>\<open>DataFrame.append\<close> per occurrence.\<close>

fun append_occurrences ::
  "string \<Rightarrow> timestamp list \<Rightarrow> (dcell, int option) row list \<Rightarrow> (dcell, int option) row list" where
  "append_occurrences task_name [] df = df"
| "append_occurrences task_name (dt # dts) df =
     append_occurrences task_name dts (df @ [recurring_row task_name dt])"

text \<open>
  \<^verbatim>\<open>add_recurring_task_advanced(task_name, recurrence_type, start_date, end_date)\<close>, with the
  table of the session state passed in and returned. The \<^verbatim>\<open>if\<close>/\<^verbatim>\<open>elif\<close> has no \<^verbatim>\<open>else\<close>: for
  any other \<^verbatim>\<open>recurrence_type\<close> the name \<^verbatim>\<open>rule\<close> is unbound when the loop header reads it, and
  Python raises \<^verbatim>\<open>UnboundLocalError\<close> before the first append. The result pairs the exception
  (if any) with the table as the call leaves it. The closing \<^verbatim>\<open>st.experimental_rerun()\<close> only
  restarts the script.
\<close>

definition add_recurring_task_advanced ::
  "string \<Rightarrow> string \<Rightarrow> date \<Rightarrow> date \<Rightarrow> (dcell, int option) row list
     \<Rightarrow> error option \<times> (dcell, int option) row list" where
  "add_recurring_task_advanced task_name recurrence_type start_date end_date df =
     (if recurrence_type = ''Weekly on Monday''
      then (None, append_occurrences task_name (rrule_weekly 0 start_date end_date) df)
      else if recurrence_type = ''Last Friday of the Month''
      then (None, append_occurrences task_name (rrule_monthly_last 4 start_date end_date) df)
      else (Some UnboundLocalError, df))"

section \<open>Ingestion\<close>

subsection \<open>Text helpers\<close>

text \<open>\<^verbatim>\<open>str.endswith\<close>, \<^verbatim>\<open>str.split(sep)\<close> and \<^verbatim>\<open>str.strip()\<close> (ASCII white space).\<close>

definition endswith :: "string \<Rightarrow> string \<Rightarrow> bool" where
  "endswith s suffix =
     (length suffix \<le> length s \<and> drop (length s - length suffix) s = suffix)"

fun split_on :: "char \<Rightarrow> string \<Rightarrow> string list" where
  "split_on sep [] = [[]]"
| "split_on sep (c # cs) =
     (if c = sep then [] # split_on sep cs
      else (case split_on sep cs of [] \<Rightarrow> [[c]] | w # ws \<Rightarrow> (c # w) # ws))"

definition is_space :: "char \<Rightarrow> bool" where
  "is_space c = (c \<in> set [CHR '' '', CHR 0x09, CHR 0x0A, CHR 0x0B, CHR 0x0C, CHR 0x0D,
                           CHR 0x1C, CHR 0x1D, CHR 0x1E, CHR 0x1F])"

definition strip :: "string \<Rightarrow> string" where
  "strip s = rev (dropWhile is_space (rev (dropWhile is_space s)))"

text \<open>The value of a decimal digit, and the digit that writes the last decimal place of a number.\<close>

definition digit_val :: "char \<Rightarrow> int option" where
  "digit_val c = map_of (zip ''0123456789'' [0, 1, 2, 3, 4, 5, 6, 7, 8, 9]) c"

definition digit_char :: "int \<Rightarrow> char" where
  "digit_char n = ''0123456789'' ! nat (n mod 10)"

subsection \<open>Parsing a date with the format \<^verbatim>\<open>%m/%d/%Y\<close>\<close>

text \<open>
  \<^verbatim>\<open>pd.to_datetime(col, format='%m/%d/%Y', errors='coerce')\<close> matches the whole text against
  the pattern that \<^verbatim>\<open>strptime\<close> builds for the format: a month \<^verbatim>\<open>1[0-2]|0[1-9]|[1-9]\<close>, a
  slash, a day \<^verbatim>\<open>3[01]|[12]\d|0[1-9]|[1-9]| [1-9]\<close>, a slash, and a year of four digits. No
  field can hold a slash, so the text is cut at its slashes. A text that does not match, a day
  the month does not have, and a date outside what a nanosecond \<^verbatim>\<open>Timestamp\<close> can hold
  (1677-09-22 to 2262-04-11) are coerced to NaT; so is a missing cell.
\<close>

definition parse_month :: "string \<Rightarrow> int option" where
  "parse_month s =
     (case map digit_val s of
        [Some a] \<Rightarrow> if 1 \<le> a then Some a else None
      | [Some a, Some b] \<Rightarrow>
          if a = 1 \<and> b \<le> 2 then Some (10 + b)
          else if a = 0 \<and> 1 \<le> b then Some b else None
      | _ \<Rightarrow> None)"

definition parse_day :: "string \<Rightarrow> int option" where
  "parse_day s =
     (case s of
        [c] \<Rightarrow> (case digit_val c of Some a \<Rightarrow> if 1 \<le> a then Some a else None | None \<Rightarrow> None)
      | [c, c'] \<Rightarrow>
          (case (digit_val c, digit_val c') of
             (Some a, Some b) \<Rightarrow>
               if a = 3 \<and> b \<le> 1 then Some (30 + b)
               else if a = 1 \<or> a = 2 then Some (10 * a + b)
               else if a = 0 \<and> 1 \<le> b then Some b else None
           | (None, Some b) \<Rightarrow> if c = CHR '' '' \<and> 1 \<le> b then Some b else None
           | _ \<Rightarrow> None)
      | _ \<Rightarrow> None)"

definition parse_year :: "string \<Rightarrow> int option" where
  "parse_year s =
     (case map digit_val s of
        [Some a, Some b, Some c, Some d] \<Rightarrow> Some (1000 * a + 100 * b + 10 * c + d)
      | _ \<Rightarrow> None)"

definition timestamp_min_day :: date where
  "timestamp_min_day = ymd2ord 1677 9 22"

definition timestamp_max_day :: date where
  "timestamp_max_day = ymd2ord 2262 4 11"

definition strptime_mdY :: "string \<Rightarrow> timestamp option" where
  "strptime_mdY s =
     (case split_on CHR ''/'' s of
        [ms, ds, ys] \<Rightarrow>
          (case (parse_month ms, parse_day ds, parse_year ys) of
             (Some m, Some d, Some y) \<Rightarrow>
               if 1 \<le> y \<and> d \<le> days_in_month y m
                  \<and> timestamp_min_day \<le> ymd2ord y m d \<and> ymd2ord y m d \<le> timestamp_max_day
               then Some (midnight (ymd2ord y m d)) else None
           | _ \<Rightarrow> None)
      | _ \<Rightarrow> None)"

definition to_datetime_mdY :: "string option \<Rightarrow> timestamp option" where
  "to_datetime_mdY c = (case c of None \<Rightarrow> None | Some s \<Rightarrow> strptime_mdY s)"

subsection \<open>\<^verbatim>\<open>load_data\<close> and the upload block\<close>

text \<open>
  An uploaded file is its name and the table \<^verbatim>\<open>pd.read_csv\<close> / \<^verbatim>\<open>pd.read_excel\<close> reads from it:
  the date columns hold text (\<open>None\<close> for an empty field), the numeric columns numbers. Reading
  the bytes of the file is the library's work and is not modelled.
\<close>

record uploaded_file =
  file_name :: string
  file_table :: "(string option, int option) row list"

definition parse_date_columns :: "(string option, int option) row list \<Rightarrow> frame" where
  "parse_date_columns rows =
     map (\<lambda>r. \<lparr> Task = Task r, Subtask = Subtask r,
                Start_Date = to_datetime_mdY (Start_Date r),
                End_Date = to_datetime_mdY (End_Date r),
                Assignee = Assignee r, Status = Status r, Progress = Progress r,
                Priority = Priority r, Time_Spent = Time_Spent r, Comments = Comments r,
                Dependencies = Dependencies r, Budget = Budget r, Cost = Cost r \<rparr>) rows"

text \<open>
  \<^verbatim>\<open>load_data(uploaded_file)\<close>. For a name that ends in neither \<^verbatim>\<open>.csv\<close> nor \<^verbatim>\<open>.xlsx\<close> it shows
  the message "Unsupported file format. Please upload a CSV or Excel file." and returns
  Python's \<^verbatim>\<open>None\<close>, here \<open>None\<close>.
\<close>

definition load_data :: "uploaded_file \<Rightarrow> frame option" where
  "load_data uploaded =
     (if endswith (file_name uploaded) ''.csv''
      then Some (parse_date_columns (file_table uploaded))
      else if endswith (file_name uploaded) ''.xlsx''
      then Some (parse_date_columns (file_table uploaded))
      else None)"

text \<open>
  What \<^verbatim>\<open>st.session_state\<close> holds under the key \<^verbatim>\<open>df\<close>: nothing yet, Python's \<^verbatim>\<open>None\<close>, or a
  table.
\<close>

datatype session_df = NoKey | PyNone | Table frame

definition seed_row ::
  "string \<Rightarrow> string \<Rightarrow> date \<Rightarrow> date \<Rightarrow> string \<Rightarrow> string \<Rightarrow> int \<Rightarrow> string \<Rightarrow> int \<Rightarrow> string \<Rightarrow> string
     \<Rightarrow> int \<Rightarrow> int \<Rightarrow> (timestamp option, int option) row" where
  "seed_row t s sd ed a st p pr ts c d b co =
     \<lparr> Task = Some t, Subtask = Some s,
       Start_Date = Some (midnight sd), End_Date = Some (midnight ed),
       Assignee = Some a, Status = Some st, Progress = Some p, Priority = Some pr,
       Time_Spent = Some ts, Comments = Some c, Dependencies = Some d,
       Budget = Some b, Cost = Some co \<rparr>"

text \<open>The dummy data of lines 64 to 141.\<close>

definition seed_data :: frame where
  "seed_data =
     [seed_row ''Design'' ''Requirement Gathering'' (ymd2ord 2024 8 1) (ymd2ord 2024 8 2)
        ''Alice'' ''Completed'' 100 ''High'' 16 ''Requirements finalized'' [] 5000 4800,
      seed_row ''Design'' ''UI/UX Design'' (ymd2ord 2024 8 3) (ymd2ord 2024 8 6)
        ''Bob'' ''In Progress'' 60 ''Medium'' 24 ''UI/UX in progress''
        ''Requirement Gathering'' 8000 4000,
      seed_row ''Design'' ''Approval'' (ymd2ord 2024 8 7) (ymd2ord 2024 8 9)
        ''Charlie'' ''Not Started'' 0 ''Medium'' 0 [] ''UI/UX Design'' 2000 0,
      seed_row ''Development'' ''Backend Development'' (ymd2ord 2024 8 10) (ymd2ord 2024 8 14)
        ''David'' ''In Progress'' 50 ''High'' 40 ''Backend API development ongoing''
        ''Approval'' 15000 6000,
      seed_row ''Development'' ''Frontend Development'' (ymd2ord 2024 8 15) (ymd2ord 2024 8 20)
        ''Eve'' ''Not Started'' 0 ''Medium'' 0 [] ''Backend Development'' 12000 0,
      seed_row ''Testing'' ''Unit Testing'' (ymd2ord 2024 8 20) (ymd2ord 2024 8 24)
        ''Frank'' ''Not Started'' 0 ''High'' 0 [] ''Frontend Development'' 5000 0,
      seed_row ''Testing'' ''Integration Testing'' (ymd2ord 2024 8 25) (ymd2ord 2024 8 30)
        ''Grace'' ''Not Started'' 0 ''Medium'' 0 [] ''Unit Testing'' 8000 0,
      seed_row ''Deployment'' ''Go Live'' (ymd2ord 2024 9 1) (ymd2ord 2024 9 5)
        ''Heidi'' ''Not Started'' 0 ''High'' 0 [] ''Integration Testing'' 10000 0]"

text \<open>
  Lines 58 to 141: with a file in the uploader, whatever \<^verbatim>\<open>load_data\<close> returns is stored under
  \<^verbatim>\<open>df\<close>, with no test for \<^verbatim>\<open>None\<close>; with no file, the seed data is stored unless the key is
  there already.
\<close>

definition upload_block :: "uploaded_file option \<Rightarrow> session_df \<Rightarrow> session_df" where
  "upload_block uploaded state =
     (case uploaded of
        Some f \<Rightarrow> (case load_data f of None \<Rightarrow> PyNone | Some df \<Rightarrow> Table df)
      | None \<Rightarrow> (if state = NoKey then Table seed_data else state))"

subsection \<open>The normalisation block (lines 274 to 277)\<close>

text \<open>\<^verbatim>\<open>Series.fillna(v)\<close> and \<^verbatim>\<open>Series.replace(old, new)\<close> on one cell.\<close>

definition fillna :: "string \<Rightarrow> string option \<Rightarrow> string option" where
  "fillna v c = (case c of None \<Rightarrow> Some v | Some s \<Rightarrow> Some s)"

definition replace_text :: "string \<Rightarrow> string \<Rightarrow> string option \<Rightarrow> string option" where
  "replace_text old new c = (if c = Some old then Some new else c)"

definition replace_blank :: "int \<Rightarrow> cell \<Rightarrow> cell" where
  "replace_blank v c = (if c = Str [] then Num v else c)"

definition normalization_block :: "('d, cell) row list \<Rightarrow> ('d, cell) row list" where
  "normalization_block df =
     (let df1 = map (\<lambda>r. r\<lparr>Subtask := fillna [] (Subtask r)\<rparr>) df;
          df2 = map (\<lambda>r. r\<lparr>Priority := replace_text [] ''Medium'' (Priority r)\<rparr>) df1;
          df3 = map (\<lambda>r. r\<lparr>Progress := replace_blank 0 (Progress r)\<rparr>) df2;
          df4 = map (\<lambda>r. r\<lparr>Time_Spent := replace_blank 0 (Time_Spent r)\<rparr>) df3
      in df4)"
section \<open>Export\<close>

text \<open>
  \<^verbatim>\<open>df.to_csv(path, index=False)\<close> followed by what \<^verbatim>\<open>pd.read_csv\<close> reads back from the file
  (the table of an \<open>uploaded_file\<close>). When the export button runs (line 394) the date columns
  are \<^verbatim>\<open>datetime64\<close> (lines 328 and 329), and pandas writes such a column in ISO form:
  \<^verbatim>\<open>YYYY-MM-DD\<close> when no value of the column has a time of day, otherwise
  \<^verbatim>\<open>YYYY-MM-DD HH:MM:SS\<close>; NaT gives an empty field. NaN and the empty string both give an
  empty field, which is read back as NaN. Numbers are read back as numbers. (pandas also reads
  a few other texts back as NaN, such as \<^verbatim>\<open>NA\<close>, \<^verbatim>\<open>N/A\<close>, \<^verbatim>\<open>null\<close> and \<^verbatim>\<open>NaN\<close>; the model
  keeps them as text.)
\<close>

definition pad2 :: "int \<Rightarrow> string" where
  "pad2 n = [digit_char (n div 10 mod 10), digit_char (n mod 10)]"

definition pad4 :: "int \<Rightarrow> string" where
  "pad4 n = [digit_char (n div 1000 mod 10), digit_char (n div 100 mod 10),
             digit_char (n div 10 mod 10), digit_char (n mod 10)]"

definition isoformat_date :: "date \<Rightarrow> string" where
  "isoformat_date d = (case ord2ymd d of (y, m, dd) \<Rightarrow> pad4 y @ ''-'' @ pad2 m @ ''-'' @ pad2 dd)"

definition isoformat_time :: "int \<Rightarrow> string" where
  "isoformat_time s = pad2 (s div 3600) @ '':'' @ pad2 (s mod 3600 div 60) @ '':'' @ pad2 (s mod 60)"

definition dates_only :: "timestamp option list \<Rightarrow> bool" where
  "dates_only col =
     list_all (\<lambda>c. case c of None \<Rightarrow> True | Some ts \<Rightarrow> ts mod seconds_per_day = 0) col"

definition format_datetime_cell :: "bool \<Rightarrow> timestamp option \<Rightarrow> string option" where
  "format_datetime_cell date_only c =
     (case c of
        None \<Rightarrow> None
      | Some ts \<Rightarrow>
          Some (if date_only then isoformat_date (date_of ts)
                else isoformat_date (date_of ts) @ '' '' @ isoformat_time (ts mod seconds_per_day)))"

definition csv_text :: "string option \<Rightarrow> string option" where
  "csv_text c = (if c = Some [] then None else c)"

definition to_csv :: "frame \<Rightarrow> (string option, int option) row list" where
  "to_csv df =
     (let start_only = dates_only (map Start_Date df);
          end_only = dates_only (map End_Date df)
      in map (\<lambda>r. \<lparr> Task = csv_text (Task r), Subtask = csv_text (Subtask r),
                    Start_Date = format_datetime_cell start_only (Start_Date r),
                    End_Date = format_datetime_cell end_only (End_Date r),
                    Assignee = csv_text (Assignee r), Status = csv_text (Status r),
                    Progress = Progress r, Priority = csv_text (Priority r),
                    Time_Spent = Time_Spent r, Comments = csv_text (Comments r),
                    Dependencies = csv_text (Dependencies r),
                    Budget = Budget r, Cost = Cost r \<rparr>) df)"

text \<open>The file the export button writes, as the uploader would hand it back.\<close>

definition exported_file :: "frame \<Rightarrow> uploaded_file" where
  "exported_file df = \<lparr> file_name = ''current_project_view.csv'', file_table = to_csv df \<rparr>"

section \<open>Views and aggregates\<close>

subsection \<open>Gantt chart with dependency lines\<close>

text \<open>One red dotted line of the figure: \<^verbatim>\<open>fig.add_shape(type="line", x0, y0, x1, y1, ...)\<close>.\<close>

record shape =
  shape_x0 :: "timestamp option"
  shape_y0 :: nat
  shape_x1 :: "timestamp option"
  shape_y1 :: nat

text \<open>
  The loop of \<^verbatim>\<open>create_gantt_chart_with_dependencies\<close> over \<^verbatim>\<open>df.iterrows()\<close>: for each row with a
  non-empty \<^verbatim>\<open>Dependencies\<close> text, each comma-separated name, stripped, is looked up in the
  \<^verbatim>\<open>Task\<close> column, and when some row has it, a line runs from the end date of the first such
  row to the start date of the current row, at the height of the current row's index. After
  the \<^verbatim>\<open>fillna\<close> no cell of the column is NaN, so the \<open>None\<close> case is never taken.
\<close>

definition dependency_shapes :: "frame \<Rightarrow> shape list" where
  "dependency_shapes df =
     concat (map (\<lambda>(i, r).
        case Dependencies r of
          None \<Rightarrow> []
        | Some deps \<Rightarrow>
            if deps = [] then []
            else concat (map (\<lambda>dep.
                   case filter (\<lambda>t. Task t = Some (strip dep)) df of
                     [] \<Rightarrow> []
                   | dep_task # _ \<Rightarrow>
                       [\<lparr> shape_x0 = End_Date dep_task, shape_y0 = i,
                          shape_x1 = Start_Date r, shape_y1 = i \<rparr>])
                 (split_on CHR '','' deps)))
       (enumerate 0 df))"

text \<open>
  \<^verbatim>\<open>create_gantt_chart_with_dependencies(df)\<close>. Its first statement assigns to a column of the
  table it was given, which is the table of the session state: the function returns the
  figure's dependency lines and the table as it leaves it.
\<close>

definition create_gantt_chart_with_dependencies :: "frame \<Rightarrow> shape list \<times> frame" where
  "create_gantt_chart_with_dependencies df =
     (let df' = map (\<lambda>r. r\<lparr>Dependencies := fillna [] (Dependencies r)\<rparr>) df
      in (dependency_shapes df', df'))"

subsection \<open>Sums, means and groups\<close>

text \<open>
  \<^verbatim>\<open>Series.sum()\<close> and \<^verbatim>\<open>count\<close> skip NaN. The sum is taken without bound here;
  \<open>np_nansum\<close> below is the sum in a column of a given dtype.
\<close>

fun nansum :: "int option list \<Rightarrow> int" where
  "nansum [] = 0"
| "nansum (None # cs) = nansum cs"
| "nansum (Some n # cs) = n + nansum cs"

definition count_notna :: "'a option list \<Rightarrow> nat" where
  "count_notna cs = length (filter (\<lambda>c. c \<noteq> None) cs)"

text \<open>
  The sums are numpy scalars, and numpy's true division does not raise on a zero divisor: it
  gives NaN for \<open>0 / 0\<close> and an infinity with the sign of the dividend otherwise. A finite
  quotient is kept exact here (no rounding to a double).
\<close>

datatype np_float = Finite rat | PosInf | NegInf | NotANumber

definition true_divide :: "int \<Rightarrow> int \<Rightarrow> np_float" where
  "true_divide a b =
     (if b = 0 then (if a = 0 then NotANumber else if 0 < a then PosInf else NegInf)
      else Finite (of_int a / of_int b))"

text \<open>\<^verbatim>\<open>Series.mean()\<close>: the sum over the number of cells that are not NaN; NaN when there is none.\<close>

definition nanmean :: "int option list \<Rightarrow> np_float" where
  "nanmean cs =
     (if count_notna cs = 0 then NotANumber
      else Finite (of_int (nansum cs) / of_int (int (count_notna cs))))"

text \<open>
  \<^verbatim>\<open>df.groupby(key)\<close> with pandas' defaults (\<^verbatim>\<open>sort=True\<close>, \<^verbatim>\<open>dropna=True\<close>): one group per
  distinct key that is not NaN / NaT, the groups in ascending order of the key, each holding
  its rows in table order. A row whose key is missing is in no group.
\<close>

definition groupby :: "('r \<Rightarrow> 'k::linorder option) \<Rightarrow> 'r list \<Rightarrow> ('k \<times> 'r list) list" where
  "groupby key df =
     map (\<lambda>k. (k, filter (\<lambda>r. key r = Some k) df)) (sort (remdups (List.map_filter key df)))"

text \<open>\<^verbatim>\<open>Series.cumsum()\<close> on the values of a keyed series.\<close>

fun cumsum_from :: "int \<Rightarrow> ('k \<times> int) list \<Rightarrow> ('k \<times> int) list" where
  "cumsum_from acc [] = []"
| "cumsum_from acc ((k, v) # kvs) = (k, acc + v) # cumsum_from (acc + v) kvs"

definition cumsum :: "('k \<times> int) list \<Rightarrow> ('k \<times> int) list" where
  "cumsum kvs = cumsum_from 0 kvs"

subsection \<open>The charts' series\<close>

text \<open>Line 347: \<^verbatim>\<open>df.groupby('End Date')['Progress'].sum().reset_index()\<close>.\<close>

definition completion_df :: "frame \<Rightarrow> (timestamp \<times> int) list" where
  "completion_df df = map (\<lambda>(k, rows). (k, nansum (map Progress rows))) (groupby End_Date df)"

text \<open>Line 335: \<^verbatim>\<open>df.groupby('End Date')['Progress'].sum().cumsum().reset_index()\<close>.\<close>

definition burn_down_df :: "frame \<Rightarrow> (timestamp \<times> int) list" where
  "burn_down_df df =
     cumsum (map (\<lambda>(k, rows). (k, nansum (map Progress rows))) (groupby End_Date df))"

text \<open>
  \<^verbatim>\<open>create_resource_load_chart\<close>:
  \<^verbatim>\<open>df.groupby('Assignee').agg({'Time Spent': 'sum', 'Task': 'count'})\<close>.
\<close>

definition create_resource_load_chart :: "frame \<Rightarrow> (string \<times> int \<times> nat) list" where
  "create_resource_load_chart df =
     map (\<lambda>(k, rows). (k, nansum (map Time_Spent rows), count_notna (map Task rows)))
       (groupby Assignee df)"

text \<open>
  \<^verbatim>\<open>create_project_health_dashboard\<close>: the three values it computes, when it computes them.
  It shows the two metrics with two decimals and the grouped sums as a bar chart. The sums are
  taken without bound and the division is numpy's, as on float64 columns; \<open>burn_rate_of\<close>
  below gives line 207 for each dtype, with the sums that wrap around and the division that
  raises.
\<close>

record health =
  burn_rate :: np_float
  budget_vs_actuals :: "(string \<times> int \<times> int) list"
  overall_progress :: np_float

definition create_project_health_dashboard :: "frame \<Rightarrow> health" where
  "create_project_health_dashboard df =
     \<lparr> burn_rate = true_divide (nansum (map Cost df)) (nansum (map Budget df)),
       budget_vs_actuals =
         map (\<lambda>(k, rows). (k, nansum (map Budget rows), nansum (map Cost rows))) (groupby Task df),
       overall_progress = nanmean (map Progress df) \<rparr>"

subsection \<open>Delay check\<close>

text \<open>
  \<^verbatim>\<open>check_project_delay(df)\<close> takes the table only. It reads the clock itself
  (\<^verbatim>\<open>datetime.now()\<close>); the model makes the reading a parameter \<open>now\<close>. The function writes
  the normalised \<^verbatim>\<open>End Date\<close> column back into the table it was given, then selects the rows
  whose end date is before today's midnight (a comparison with NaT is false). It returns
  nothing; the model returns the selected rows, of which the warning shows the columns
  Task, Subtask, End Date and Assignee, and the table as the call leaves it.
\<close>

definition check_project_delay :: "timestamp \<Rightarrow> frame \<Rightarrow> frame \<times> frame" where
  "check_project_delay now df =
     (let today_pd = normalize now;
          df' = map (\<lambda>r. r\<lparr>End_Date := map_option normalize (End_Date r)\<rparr>) df;
          delayed_tasks =
            filter (\<lambda>r. case End_Date r of None \<Rightarrow> False | Some e \<Rightarrow> e < today_pd) df'
      in (delayed_tasks, df'))"

subsection \<open>One pass over the visualisations (lines 331 to 373)\<close>

record views =
  fig_gantt :: "shape list"
  burn_down :: "(timestamp \<times> int) list"
  fig_resource_load :: "(string \<times> int \<times> nat) list"
  completion :: "(timestamp \<times> int) list"
  dashboard :: health
  delayed :: frame

text \<open>
  The script calls the views one after the other on \<^verbatim>\<open>st.session_state.df\<close>. The table is
  threaded through the two calls that assign to it; the others only read it. (The Kanban and
  calendar views between them only read it too and compute nothing the model needs.) Where
  line 207 raises, on the table of a file with a header and no rows, the script stops before
  the delay check; that table has no row for it to write.
\<close>

definition project_visualizations :: "timestamp \<Rightarrow> frame \<Rightarrow> views \<times> frame" where
  "project_visualizations now df =
     (let (gantt, df1) = create_gantt_chart_with_dependencies df;
          bd = burn_down_df df1;
          load = create_resource_load_chart df1;
          comp = completion_df df1;
          h = create_project_health_dashboard df1;
          (late, df2) = check_project_delay now df1
      in (\<lparr> fig_gantt = gantt, burn_down = bd, fig_resource_load = load, completion = comp,
            dashboard = h, delayed = late \<rparr>, df2))"

section \<open>The specification's wording, for comparison\<close>

text \<open>
  Delay detection as the specification words it: the caller supplies \<open>today\<close>, and a task is
  delayed when its end date is set and earlier than \<open>today\<close>.
\<close>

definition spec_delayed :: "timestamp \<Rightarrow> frame \<Rightarrow> frame" where
  "spec_delayed today df =
     filter (\<lambda>r. case End_Date r of None \<Rightarrow> False | Some e \<Rightarrow> e < today) df"

section \<open>Example rows\<close>

text \<open>
  A row as the normalisation block may meet it, with the two cells it defaults given as
  arguments; used to run the model on concrete tables.
\<close>

definition example_raw_row :: "cell \<Rightarrow> cell \<Rightarrow> (timestamp option, cell) row" where
  "example_raw_row progress time_spent =
     \<lparr> Task = Some ''Design'', Subtask = None,
       Start_Date = Some (midnight (ymd2ord 2024 8 1)),
       End_Date = Some (midnight (ymd2ord 2024 8 2)),
       Assignee = Some ''Alice'', Status = Some ''In Progress'', Progress = progress,
       Priority = Some [], Time_Spent = time_spent, Comments = None, Dependencies = None,
       Budget = Some 5000, Cost = Some 4800 \<rparr>"

section \<open>Column dtypes\<close>

text \<open>
  How pandas adds the cells of a numeric column depends on the dtype of the column, which is
  not a function of the cells: it is part of the table. A numeric column of the table is
  \<^item> \<^verbatim>\<open>int64\<close> when every row holds an integer: numpy adds in 64-bit two's complement and
    wraps around silently;
  \<^item> \<^verbatim>\<open>float64\<close> when some row lacks the value (NaN): the cells are doubles, and sums of
    integers are exact as long as the absolute values add up to no more than \<open>2 ^ 53\<close>;
  \<^item> \<^verbatim>\<open>object\<close> for the table \<^verbatim>\<open>pd.read_csv\<close> reads from a file that has a header and no
    rows: the cells, if any, are Python objects, and the sum is a Python \<^verbatim>\<open>int\<close>, without
    bound.
  The sums, series and dashboard values of the previous section are taken without bound: they
  are the \<open>Float64\<close> instances of the functions of this section, which take the dtype as an
  argument.
\<close>

datatype np_dtype = Int64 | Float64

text \<open>The value that 64-bit two's complement arithmetic keeps of an integer.\<close>

definition wrap_int64 :: "int \<Rightarrow> int" where
  "wrap_int64 x = (x + 2 ^ 63) mod 2 ^ 64 - 2 ^ 63"

text \<open>One addition in a column of the given dtype.\<close>

definition np_add :: "np_dtype \<Rightarrow> int \<Rightarrow> int \<Rightarrow> int" where
  "np_add dt a b = (case dt of Int64 \<Rightarrow> wrap_int64 (a + b) | Float64 \<Rightarrow> a + b)"

text \<open>\<^verbatim>\<open>Series.sum()\<close> of a numpy column: NaN is skipped, every addition is the dtype's.\<close>

fun np_nansum :: "np_dtype \<Rightarrow> int option list \<Rightarrow> int" where
  "np_nansum dt [] = 0"
| "np_nansum dt (None # cs) = np_nansum dt cs"
| "np_nansum dt (Some n # cs) = np_add dt n (np_nansum dt cs)"


text \<open>
  The cells a column of the dtype can hold, and for which the model's sums are the code's:
  integers of the int64 range in every row, or (float64) integers whose absolute values add up
  to at most \<open>2 ^ 53\<close>.
\<close>

definition column_ok :: "np_dtype \<Rightarrow> int option list \<Rightarrow> bool" where
  "column_ok dt cs =
     (case dt of
        Int64 \<Rightarrow> list_all (\<lambda>c. case c of None \<Rightarrow> False | Some v \<Rightarrow> - (2 ^ 63) \<le> v \<and> v < 2 ^ 63) cs
      | Float64 \<Rightarrow> (\<Sum>c\<leftarrow>cs. case c of None \<Rightarrow> 0 | Some v \<Rightarrow> \<bar>v\<bar>) \<le> 2 ^ 53)"

subsection \<open>The burn-down series, by dtype of the progress column\<close>


subsection \<open>The burn rate, by dtype of the amount columns\<close>

text \<open>
  The dtypes of the \<^verbatim>\<open>Cost\<close> and \<^verbatim>\<open>Budget\<close> columns: both hold Python objects (the table
  of a file with no rows), or each is a numpy column.
\<close>

datatype amount_dtypes = PyObjects | NumpyColumns np_dtype np_dtype

text \<open>
  Python's \<^verbatim>\<open>a / b\<close> on two \<^verbatim>\<open>int\<close>s: it raises \<^verbatim>\<open>ZeroDivisionError\<close> when \<open>b\<close> is 0 and
  \<^verbatim>\<open>OverflowError\<close> when the quotient, rounded to the nearest double, is too large for one
  (from \<open>2 ^ 1024 - 2 ^ 970\<close> on). The quotient is kept exact otherwise.
\<close>

definition py_truediv :: "int \<Rightarrow> int \<Rightarrow> error + np_float" where
  "py_truediv a b =
     (if b = 0 then Inl ZeroDivisionError
      else if 2 ^ 1024 - 2 ^ 970 \<le> \<bar>of_int a / of_int b :: rat\<bar> then Inl OverflowError
      else Inr (Finite (of_int a / of_int b)))"

text \<open>
  Line 207, \<^verbatim>\<open>burn_rate = df['Cost'].sum() / df['Budget'].sum()\<close>. With object columns the two
  sums are Python \<^verbatim>\<open>int\<close>s and the division is Python's; with numpy columns the sums are
  numpy scalars of the columns' dtypes and the division is numpy's, which does not raise.
\<close>

definition burn_rate_of :: "amount_dtypes \<Rightarrow> frame \<Rightarrow> error + np_float" where
  "burn_rate_of dts df =
     (case dts of
        PyObjects \<Rightarrow> py_truediv (nansum (map Cost df)) (nansum (map Budget df))
      | NumpyColumns cost_dtype budget_dtype \<Rightarrow>
          Inr (true_divide (np_nansum cost_dtype (map Cost df))
                           (np_nansum budget_dtype (map Budget df))))"
section \<open>Properties of the recurrence expander\<close>

lemma rrule_scan_filter: "rrule_scan byday d until = filter byday [d..until]"
proof (induction byday d until rule: rrule_scan.induct)
  case (1 byday d until)
  show ?case
  proof (cases "until < d")
    case True
    then show ?thesis by (simp add: rrule_scan.simps)
  next
    case False
    then have "[d..until] = d # [d + 1..until]" by (simp add: upto_rec1)
    with False 1 show ?thesis by (simp add: rrule_scan.simps [of byday d until])
  qed
qed

lemma append_occurrences_eq:
  "append_occurrences task_name dts df = df @ map (recurring_row task_name) dts"
  by (induction dts arbitrary: df) simp_all

lemma weekly_on_monday_rows:
  "add_recurring_task_advanced task_name ''Weekly on Monday'' start_date end_date df =
     (None, df @ map (\<lambda>d. recurring_row task_name (midnight d))
                   (filter (\<lambda>d. weekday d = 0) [start_date..end_date]))"
  by (simp add: add_recurring_task_advanced_def rrule_weekly_def rrule_scan_filter
      append_occurrences_eq comp_def)

lemma mondays_of_august_2024:
  "filter (\<lambda>d. weekday d = 0) [ymd2ord 2024 8 1..ymd2ord 2024 8 31] =
     [ymd2ord 2024 8 5, ymd2ord 2024 8 12, ymd2ord 2024 8 19, ymd2ord 2024 8 26]"
  by code_simp

lemma last_friday_of_august_2024:
  "filter (last_weekday_of_month 4) [ymd2ord 2024 8 1..ymd2ord 2024 8 31] = [ymd2ord 2024 8 30]"
  by code_simp

text \<open>
  Claim C3, as amended. The code has one weekly pattern, \<^verbatim>\<open>'Weekly on Monday'\<close>. For every
  task name, every range (an empty one included) and every table, it appends to the table, in
  ascending order, exactly one row per date of \<open>[start_date, end_date]\<close> that is a Monday
  (no date twice, no Monday left out); each such row starts at that date's midnight, ends one
  day later, has the status "Not Started" and the progress 0. Over 2024-08-01 to 2024-08-31
  the dates are 08-05, 08-12, 08-19 and 08-26.
\<close>

theorem weekly_on_monday_expansion:
  "add_recurring_task_advanced task_name ''Weekly on Monday'' start_date end_date df =
     (None, df @ map (\<lambda>d. recurring_row task_name (midnight d))
                   (filter (\<lambda>d. weekday d = 0) [start_date..end_date]))
   \<and> distinct (filter (\<lambda>d. weekday d = 0) [start_date..end_date])
   \<and> sorted (filter (\<lambda>d. weekday d = 0) [start_date..end_date])
   \<and> set (filter (\<lambda>d. weekday d = 0) [start_date..end_date]) =
       {d. start_date \<le> d \<and> d \<le> end_date \<and> weekday d = 0}
   \<and> Task (recurring_row task_name dt) = Some task_name
   \<and> Start_Date (recurring_row task_name dt) = Stamp dt
   \<and> End_Date (recurring_row task_name dt) = Stamp (dt + 86400)
   \<and> Status (recurring_row task_name dt) = Some ''Not Started''
   \<and> Progress (recurring_row task_name dt) = Some 0
   \<and> filter (\<lambda>d. weekday d = 0) [ymd2ord 2024 8 1..ymd2ord 2024 8 31] =
       [ymd2ord 2024 8 5, ymd2ord 2024 8 12, ymd2ord 2024 8 19, ymd2ord 2024 8 26]"
proof -
  have "sorted (filter (\<lambda>d. weekday d = 0) [start_date..end_date])"
    by (rule sorted_wrt_filter) simp
  moreover have "set (filter (\<lambda>d. weekday d = 0) [start_date..end_date]) =
      {d. start_date \<le> d \<and> d \<le> end_date \<and> weekday d = 0}"
    by auto
  moreover have "End_Date (recurring_row task_name dt) = Stamp (dt + 86400)"
    by (simp add: recurring_row_def plus_days_def seconds_per_day_def)
  ultimately show ?thesis
    using weekly_on_monday_rows [of task_name start_date end_date df] mondays_of_august_2024
    by (simp add: recurring_row_def)
qed

theorem weekly_on_monday_expansion_witness:
  "snd (add_recurring_task_advanced ''Standup'' ''Weekly on Monday''
          (ymd2ord 2024 8 1) (ymd2ord 2024 8 31) []) =
     map (\<lambda>d. recurring_row ''Standup'' (midnight d))
       [ymd2ord 2024 8 5, ymd2ord 2024 8 12, ymd2ord 2024 8 19, ymd2ord 2024 8 26]"
  using weekly_on_monday_expansion [of "''Standup''" "ymd2ord 2024 8 1" "ymd2ord 2024 8 31" "[]" 0]
  by simp

text \<open>
  Claim C3 as stated fails for a weekday other than Monday: no value of
  \<^verbatim>\<open>recurrence_type\<close> makes the code generate the Tuesdays of August 2024 (08-06, 08-13,
  08-20, 08-27).
\<close>

theorem weekly_on_tuesday_counterexample:
  "\<not> (\<exists>recurrence_type.
        snd (add_recurring_task_advanced ''Standup'' recurrence_type
               (ymd2ord 2024 8 1) (ymd2ord 2024 8 31) []) =
          map (\<lambda>d. recurring_row ''Standup'' (midnight d))
            [ymd2ord 2024 8 6, ymd2ord 2024 8 13, ymd2ord 2024 8 20, ymd2ord 2024 8 27])"
proof
  assume "\<exists>recurrence_type.
        snd (add_recurring_task_advanced ''Standup'' recurrence_type
               (ymd2ord 2024 8 1) (ymd2ord 2024 8 31) []) =
          map (\<lambda>d. recurring_row ''Standup'' (midnight d))
            [ymd2ord 2024 8 6, ymd2ord 2024 8 13, ymd2ord 2024 8 20, ymd2ord 2024 8 27]"
  then obtain rt where rt:
    "snd (add_recurring_task_advanced ''Standup'' rt (ymd2ord 2024 8 1) (ymd2ord 2024 8 31) []) =
       map (\<lambda>d. recurring_row ''Standup'' (midnight d))
         [ymd2ord 2024 8 6, ymd2ord 2024 8 13, ymd2ord 2024 8 20, ymd2ord 2024 8 27]"
    by blast
  have monday_tuesday: "ymd2ord 2024 8 5 \<noteq> ymd2ord 2024 8 6"
    by (simp add: ymd2ord_def)
  show False
  proof (cases "rt = ''Weekly on Monday''")
    case True
    with rt monday_tuesday show False
      by (simp add: weekly_on_monday_rows mondays_of_august_2024 recurring_row_def
          midnight_def seconds_per_day_def)
  next
    case False
    show False
    proof (cases "rt = ''Last Friday of the Month''")
      case True
      with rt show False
        by (simp add: add_recurring_task_advanced_def rrule_monthly_last_def rrule_scan_filter
            append_occurrences_eq last_friday_of_august_2024)
    next
      case other: False
      with False rt show False
        by (simp add: add_recurring_task_advanced_def)
    qed
  qed
qed


section \<open>Properties of the aggregates\<close>

lemma nansum_sum_list: "nansum cs = (\<Sum>c\<leftarrow>cs. case c of None \<Rightarrow> 0 | Some n \<Rightarrow> n)"
  by (induction cs rule: nansum.induct) simp_all


lemma cumsum_from_keys: "map fst (cumsum_from acc kvs) = map fst kvs"
  by (induction kvs arbitrary: acc) auto



lemma groupby_keys: "map fst (groupby key df) = sort (remdups (List.map_filter key df))"
  by (simp add: groupby_def comp_def)

lemma set_map_filter_key: "set (List.map_filter key df) = {k. \<exists>r \<in> set df. key r = Some k}"
  by (induction df) (auto simp: map_filter_simps split: option.splits)

lemma map_filter_dropna:
  "List.map_filter key (filter (\<lambda>r. key r \<noteq> None) df) = List.map_filter key df"
  by (induction df) (auto simp: map_filter_simps split: option.splits)

lemma filter_key_dropna:
  "filter (\<lambda>r. key r = Some k) (filter (\<lambda>r. key r \<noteq> None) df) = filter (\<lambda>r. key r = Some k) df"
  by (induction df) auto

lemma groupby_dropna: "groupby key (filter (\<lambda>r. key r \<noteq> None) df) = groupby key df"
  by (simp only: groupby_def map_filter_dropna filter_key_dropna)

lemma completion_keys: "map fst (completion_df df) = sort (remdups (List.map_filter End_Date df))"
  by (simp add: completion_df_def groupby_def comp_def)

lemma burn_down_keys: "map fst (burn_down_df df) = map fst (completion_df df)"
  by (simp add: burn_down_df_def completion_df_def cumsum_def cumsum_from_keys)


lemma completion_values:
  assumes "(k, v) \<in> set (completion_df df)"
  shows "v = nansum (map Progress (filter (\<lambda>r. End_Date r = Some k) df))"
  using assms by (auto simp: completion_df_def groupby_def)

subsection \<open>Sums in a dtype\<close>

lemma wrap_int64_id: "- (2 ^ 63) \<le> x \<Longrightarrow> x < 2 ^ 63 \<Longrightarrow> wrap_int64 x = x"
  by (simp add: wrap_int64_def)

lemma wrap_int64_add_right: "wrap_int64 (a + wrap_int64 b) = wrap_int64 (a + b)"
proof -
  have "(a + ((b + 2 ^ 63) mod 2 ^ 64 - 2 ^ 63) + 2 ^ 63) mod 2 ^ 64 = (a + (b + 2 ^ 63) mod 2 ^ 64) mod (2 ^ 64 :: int)"
    by (simp add: algebra_simps)
  also have "\<dots> = (a + (b + 2 ^ 63)) mod 2 ^ 64"
    by (rule mod_add_right_eq)
  finally show ?thesis
    by (simp add: wrap_int64_def algebra_simps)
qed


lemma wrap_int64_idem: "wrap_int64 (wrap_int64 a) = wrap_int64 a"
  using wrap_int64_add_right [of 0 a] by simp

lemma np_nansum_Float64: "np_nansum Float64 cs = nansum cs"
  by (induction cs rule: nansum.induct) (simp_all add: np_add_def)

lemma wrap_zero: "wrap_int64 0 = 0"
  by (simp add: wrap_int64_def)

lemma np_nansum_Int64: "np_nansum Int64 cs = wrap_int64 (nansum cs)"
proof (induction cs rule: nansum.induct)
  case 1
  show ?case by (simp add: wrap_zero)
next
  case (2 cs)
  then show ?case by simp
next
  case (3 n cs)
  then have "np_nansum Int64 (Some n # cs) = wrap_int64 (n + wrap_int64 (nansum cs))"
    by (simp add: np_add_def)
  then show ?case by (simp add: wrap_int64_add_right)
qed














lemma burn_rate_of_Float64:
  "burn_rate_of (NumpyColumns Float64 Float64) df = Inr (burn_rate (create_project_health_dashboard df))"
  by (simp add: burn_rate_of_def create_project_health_dashboard_def np_nansum_Float64)

lemma np_nansum_by_dtype:
  "np_nansum dt cs = (if dt = Int64 then wrap_int64 (nansum cs) else nansum cs)"
  by (cases dt) (simp_all add: np_nansum_Int64 np_nansum_Float64)

text \<open>
  Claim C1, as amended. The burn rate is the quotient of the sum of cost by the sum of budget
  over all rows, each sum taken in the dtype of its column. For every task store whose two
  amount columns are numeric (int64 when every row holds the amount, float64 when some row
  lacks it), an int64 sum is the exact sum as long as that stays in the int64 range and wraps
  around otherwise, and the division raises nothing: when the sum of budget is 0 the result is
  NaN if the sum of cost is 0 too, and an infinity with the sign of the sum of cost otherwise.
  For a store whose amount columns hold Python objects, as the store read from a file with a
  header and no rows does, a sum of budget of 0 makes the division raise
  \<^verbatim>\<open>ZeroDivisionError\<close>. The code has no "not computable" state.
\<close>

theorem burn_rate_by_dtype:
  "(column_ok cost_dtype (map Cost df) \<and> column_ok budget_dtype (map Budget df) \<longrightarrow>
      burn_rate_of (NumpyColumns cost_dtype budget_dtype) df =
        Inr (let c = (\<Sum>r\<leftarrow>df. case Cost r of None \<Rightarrow> 0 | Some v \<Rightarrow> v);
                 b = (\<Sum>r\<leftarrow>df. case Budget r of None \<Rightarrow> 0 | Some v \<Rightarrow> v);
                 cost = (if cost_dtype = Int64 then wrap_int64 c else c);
                 budget = (if budget_dtype = Int64 then wrap_int64 b else b)
             in if budget \<noteq> 0 then Finite (of_int cost / of_int budget)
                else if cost = 0 then NotANumber
                else if 0 < cost then PosInf else NegInf))
   \<and> ((\<Sum>r\<leftarrow>df. case Budget r of None \<Rightarrow> 0 | Some v \<Rightarrow> v) = 0 \<longrightarrow>
         burn_rate_of PyObjects df = Inl ZeroDivisionError)
   \<and> burn_rate_of PyObjects [] = Inl ZeroDivisionError
   \<and> (- (2 ^ 63) \<le> x \<and> x < 2 ^ 63 \<longrightarrow> wrap_int64 x = x)"
proof (intro conjI impI)
  show "burn_rate_of (NumpyColumns cost_dtype budget_dtype) df =
        Inr (let c = (\<Sum>r\<leftarrow>df. case Cost r of None \<Rightarrow> 0 | Some v \<Rightarrow> v);
                 b = (\<Sum>r\<leftarrow>df. case Budget r of None \<Rightarrow> 0 | Some v \<Rightarrow> v);
                 cost = (if cost_dtype = Int64 then wrap_int64 c else c);
                 budget = (if budget_dtype = Int64 then wrap_int64 b else b)
             in if budget \<noteq> 0 then Finite (of_int cost / of_int budget)
                else if cost = 0 then NotANumber
                else if 0 < cost then PosInf else NegInf)"
    by (simp add: burn_rate_of_def true_divide_def np_nansum_by_dtype nansum_sum_list comp_def
        Let_def)
  show "burn_rate_of PyObjects df = Inl ZeroDivisionError"
    if "(\<Sum>r\<leftarrow>df. case Budget r of None \<Rightarrow> 0 | Some v \<Rightarrow> v) = 0"
    using that by (simp add: burn_rate_of_def py_truediv_def nansum_sum_list comp_def)
  show "burn_rate_of PyObjects [] = Inl ZeroDivisionError"
    by (simp add: burn_rate_of_def py_truediv_def)
  show "wrap_int64 x = x" if "- (2 ^ 63) \<le> x \<and> x < 2 ^ 63"
    using that by (simp add: wrap_int64_id)
qed

theorem burn_rate_by_dtype_witness:
  "column_ok Int64 (map Cost seed_data) \<and> column_ok Int64 (map Budget seed_data)
   \<and> burn_rate_of (NumpyColumns Int64 Int64) seed_data = Inr (Finite (14800 / 65000))"
proof -
  have cost: "column_ok Int64 (map Cost seed_data)"
    by (simp add: seed_data_def seed_row_def column_ok_def)
  have budget: "column_ok Int64 (map Budget seed_data)"
    by (simp add: seed_data_def seed_row_def column_ok_def)
  have sums: "(\<Sum>r\<leftarrow>seed_data. case Cost r of None \<Rightarrow> 0 | Some v \<Rightarrow> v) = 14800"
    "(\<Sum>r\<leftarrow>seed_data. case Budget r of None \<Rightarrow> 0 | Some v \<Rightarrow> v) = 65000"
    by (simp_all add: seed_data_def seed_row_def)
  have "wrap_int64 14800 = 14800" "wrap_int64 65000 = 65000"
    by (simp_all add: wrap_int64_def)
  with burn_rate_by_dtype [of Int64 seed_data Int64 0] cost budget sums
  show ?thesis by (simp add: Let_def)
qed

text \<open>
  Claim C1 as stated fails. With int64 columns, a store whose only row has budget 0 and cost 0
  yields NaN, and one whose only row has budget 0 and cost 4800 yields plus infinity; the
  store of a header-only file raises \<^verbatim>\<open>ZeroDivisionError\<close>; and two rows of budget
  \<open>2 ^ 62\<close> and cost 1 yield a negative burn rate, the sum of budget having wrapped around.
\<close>

theorem burn_rate_zero_budget_counterexample:
  "burn_rate_of (NumpyColumns Int64 Int64)
     [seed_row ''Design'' ''Approval'' (ymd2ord 2024 8 7) (ymd2ord 2024 8 9)
        ''Charlie'' ''Not Started'' 0 ''Medium'' 0 [] ''UI/UX Design'' 0 0] = Inr NotANumber
   \<and> burn_rate_of (NumpyColumns Int64 Int64)
     [seed_row ''Design'' ''Requirement Gathering'' (ymd2ord 2024 8 1) (ymd2ord 2024 8 2)
        ''Alice'' ''Completed'' 100 ''High'' 16 ''Requirements finalized'' [] 0 4800] = Inr PosInf
   \<and> burn_rate_of PyObjects [] = Inl ZeroDivisionError
   \<and> burn_rate_of (NumpyColumns Int64 Int64)
     [seed_row ''Design'' ''Requirement Gathering'' (ymd2ord 2024 8 1) (ymd2ord 2024 8 2)
        ''Alice'' ''Completed'' 100 ''High'' 16 ''Requirements finalized'' [] (2 ^ 62) 1,
      seed_row ''Design'' ''UI/UX Design'' (ymd2ord 2024 8 3) (ymd2ord 2024 8 6)
        ''Bob'' ''In Progress'' 60 ''Medium'' 24 ''UI/UX in progress''
        ''Requirement Gathering'' (2 ^ 62) 1] = Inr (Finite (2 / - (2 ^ 63)))"
  by (simp add: burn_rate_of_def py_truediv_def true_divide_def np_add_def seed_row_def
      wrap_int64_def)




text \<open>
  Claim C10. Rows whose end date is unset take no part in the burn-down series nor in the
  progress-over-time series: each series is the one computed from the rows that have an end
  date. The dates of both series are exactly the end dates that some row has (no point stands
  for the unset date), and the value of a point of the progress-over-time series is the sum of
  the progress of the rows that end on its date.
\<close>

theorem unset_end_date_excluded:
  "burn_down_df df = burn_down_df (filter (\<lambda>r. End_Date r \<noteq> None) df)
   \<and> completion_df df = completion_df (filter (\<lambda>r. End_Date r \<noteq> None) df)
   \<and> set (map fst (completion_df df)) = {k. \<exists>r \<in> set df. End_Date r = Some k}
   \<and> map fst (burn_down_df df) = map fst (completion_df df)
   \<and> (\<forall>(k, v) \<in> set (completion_df df).
         v = (\<Sum>r\<leftarrow>filter (\<lambda>r. End_Date r = Some k) df.
                case Progress r of None \<Rightarrow> 0 | Some p \<Rightarrow> p))"
proof (intro conjI)
  show "burn_down_df df = burn_down_df (filter (\<lambda>r. End_Date r \<noteq> None) df)"
    by (simp only: burn_down_df_def groupby_dropna)
  show "completion_df df = completion_df (filter (\<lambda>r. End_Date r \<noteq> None) df)"
    by (simp only: completion_df_def groupby_dropna)
  show "set (map fst (completion_df df)) = {k. \<exists>r \<in> set df. End_Date r = Some k}"
    by (simp add: completion_keys set_map_filter_key)
  show "map fst (burn_down_df df) = map fst (completion_df df)"
    by (rule burn_down_keys)
  show "\<forall>(k, v) \<in> set (completion_df df).
         v = (\<Sum>r\<leftarrow>filter (\<lambda>r. End_Date r = Some k) df.
                case Progress r of None \<Rightarrow> 0 | Some p \<Rightarrow> p)"
    by (auto dest: completion_values simp: nansum_sum_list comp_def)
qed

theorem unset_end_date_excluded_witness:
  "completion_df (seed_data @ [(hd seed_data)\<lparr>End_Date := None, Progress := Some 40\<rparr>]) =
     completion_df seed_data
   \<and> burn_down_df (seed_data @ [(hd seed_data)\<lparr>End_Date := None, Progress := Some 40\<rparr>]) =
     burn_down_df seed_data"
  using unset_end_date_excluded
    [of "seed_data @ [(hd seed_data)\<lparr>End_Date := None, Progress := Some 40\<rparr>]"]
  by (simp add: seed_data_def seed_row_def)
section \<open>Delay check and what the views write\<close>

lemma normalize_eq: "normalize ts = date_of ts * seconds_per_day"
  by (simp add: normalize_def date_of_def minus_mod_eq_div_mult)

lemma normalize_less_iff: "normalize a < normalize b \<longleftrightarrow> date_of a < date_of b"
  by (simp add: normalize_eq seconds_per_day_def)

lemma normalize_midnight: "normalize (midnight d) = midnight d"
  by (simp add: normalize_def midnight_def)

lemma date_of_midnight: "date_of (midnight d) = d"
  by (simp add: date_of_def midnight_def seconds_per_day_def)

lemma normalize_idem: "ts mod 86400 = 0 \<Longrightarrow> normalize ts = ts"
  by (simp add: normalize_def seconds_per_day_def)

lemma check_project_delay_rows:
  "fst (check_project_delay now df) =
     map (\<lambda>r. r\<lparr>End_Date := map_option normalize (End_Date r)\<rparr>)
       (filter (\<lambda>r. case End_Date r of None \<Rightarrow> False | Some e \<Rightarrow> date_of e < date_of now) df)"
proof -
  have "(case map_option normalize c of None \<Rightarrow> False | Some e \<Rightarrow> e < normalize now) =
        (case c of None \<Rightarrow> False | Some e \<Rightarrow> date_of e < date_of now)" for c
    by (cases c) (simp_all add: normalize_less_iff)
  then show ?thesis
    by (simp add: check_project_delay_def Let_def filter_map comp_def)
qed

text \<open>
  Claim C2, as amended. Today is not supplied by the caller: \<^verbatim>\<open>check_project_delay\<close> takes
  it from the clock and drops the time of day. For every task store and every reading of the
  clock, the delayed rows are exactly the rows whose end date is set and falls on a day
  strictly before the clock's day, in task-store order (shown with the end date at midnight).
  In particular, whenever the clock reads some time on 2024-09-10, a task ending on
  2024-08-09 is reported and a task ending on 2024-09-20 is not.
\<close>

theorem delay_detection_by_clock:
  "fst (check_project_delay now df) =
     map (\<lambda>r. r\<lparr>End_Date := map_option normalize (End_Date r)\<rparr>)
       (filter (\<lambda>r. case End_Date r of None \<Rightarrow> False | Some e \<Rightarrow> date_of e < date_of now) df)
   \<and> (date_of now = ymd2ord 2024 9 10 \<longrightarrow>
        fst (check_project_delay now
               [r\<lparr>End_Date := Some (midnight (ymd2ord 2024 8 9))\<rparr>,
                r'\<lparr>End_Date := Some (midnight (ymd2ord 2024 9 20))\<rparr>]) =
          [r\<lparr>End_Date := Some (midnight (ymd2ord 2024 8 9))\<rparr>])"
proof (intro conjI impI)
  show "fst (check_project_delay now df) =
     map (\<lambda>r. r\<lparr>End_Date := map_option normalize (End_Date r)\<rparr>)
       (filter (\<lambda>r. case End_Date r of None \<Rightarrow> False | Some e \<Rightarrow> date_of e < date_of now) df)"
    by (rule check_project_delay_rows)
next
  assume today: "date_of now = ymd2ord 2024 9 10"
  have "ymd2ord 2024 8 9 < ymd2ord 2024 9 10" and "\<not> ymd2ord 2024 9 20 < ymd2ord 2024 9 10"
    by (simp_all add: ymd2ord_def days_before_month_def is_leap_def)
  with today show "fst (check_project_delay now
               [r\<lparr>End_Date := Some (midnight (ymd2ord 2024 8 9))\<rparr>,
                r'\<lparr>End_Date := Some (midnight (ymd2ord 2024 9 20))\<rparr>]) =
          [r\<lparr>End_Date := Some (midnight (ymd2ord 2024 8 9))\<rparr>]"
    by (simp add: check_project_delay_rows date_of_midnight normalize_midnight)
qed

theorem delay_detection_by_clock_witness:
  "date_of (mk_datetime 2024 9 10 14 30 0) = ymd2ord 2024 9 10
   \<and> fst (check_project_delay (mk_datetime 2024 9 10 14 30 0)
       [seed_row ''Design'' ''Approval'' (ymd2ord 2024 8 7) (ymd2ord 2024 8 9)
          ''Charlie'' ''Not Started'' 0 ''Medium'' 0 [] ''UI/UX Design'' 2000 0,
        seed_row ''Deployment'' ''Go Live'' (ymd2ord 2024 9 1) (ymd2ord 2024 9 20)
          ''Heidi'' ''Not Started'' 0 ''High'' 0 [] ''Integration Testing'' 10000 0]) =
       [seed_row ''Design'' ''Approval'' (ymd2ord 2024 8 7) (ymd2ord 2024 8 9)
          ''Charlie'' ''Not Started'' 0 ''Medium'' 0 [] ''UI/UX Design'' 2000 0]"
proof -
  have today: "date_of (mk_datetime 2024 9 10 14 30 0) = ymd2ord 2024 9 10"
    by (simp add: date_of_def mk_datetime_def midnight_def seconds_per_day_def)
  have a: "seed_row ''Design'' ''Approval'' (ymd2ord 2024 8 7) (ymd2ord 2024 8 9)
          ''Charlie'' ''Not Started'' 0 ''Medium'' 0 [] ''UI/UX Design'' 2000 0 =
        (seed_row ''Design'' ''Approval'' (ymd2ord 2024 8 7) (ymd2ord 2024 8 9)
          ''Charlie'' ''Not Started'' 0 ''Medium'' 0 [] ''UI/UX Design'' 2000 0)
        \<lparr>End_Date := Some (midnight (ymd2ord 2024 8 9))\<rparr>"
    by (simp add: seed_row_def)
  have b: "seed_row ''Deployment'' ''Go Live'' (ymd2ord 2024 9 1) (ymd2ord 2024 9 20)
          ''Heidi'' ''Not Started'' 0 ''High'' 0 [] ''Integration Testing'' 10000 0 =
        (seed_row ''Deployment'' ''Go Live'' (ymd2ord 2024 9 1) (ymd2ord 2024 9 20)
          ''Heidi'' ''Not Started'' 0 ''High'' 0 [] ''Integration Testing'' 10000 0)
        \<lparr>End_Date := Some (midnight (ymd2ord 2024 9 20))\<rparr>"
    by (simp add: seed_row_def)
  from delay_detection_by_clock
    [of "mk_datetime 2024 9 10 14 30 0" "[]"
      "seed_row ''Design'' ''Approval'' (ymd2ord 2024 8 7) (ymd2ord 2024 8 9)
          ''Charlie'' ''Not Started'' 0 ''Medium'' 0 [] ''UI/UX Design'' 2000 0"
      "seed_row ''Deployment'' ''Go Live'' (ymd2ord 2024 9 1) (ymd2ord 2024 9 20)
          ''Heidi'' ''Not Started'' 0 ''High'' 0 [] ''Integration Testing'' 10000 0"]
    today
  show ?thesis
    unfolding a [symmetric] b [symmetric] by blast
qed

text \<open>
  Claim C2 as stated fails: the caller cannot supply today. A caller who means today to be
  2024-09-10, for which the specification's delayed set holds the task ending on 2024-08-09,
  gets no delayed task from the code when the clock reads 2024-08-01 12:00.
\<close>

theorem delay_detection_counterexample:
  "spec_delayed (midnight (ymd2ord 2024 9 10))
     [seed_row ''Design'' ''Approval'' (ymd2ord 2024 8 7) (ymd2ord 2024 8 9)
        ''Charlie'' ''Not Started'' 0 ''Medium'' 0 [] ''UI/UX Design'' 2000 0] =
     [seed_row ''Design'' ''Approval'' (ymd2ord 2024 8 7) (ymd2ord 2024 8 9)
        ''Charlie'' ''Not Started'' 0 ''Medium'' 0 [] ''UI/UX Design'' 2000 0]
   \<and> fst (check_project_delay (mk_datetime 2024 8 1 12 0 0)
       [seed_row ''Design'' ''Approval'' (ymd2ord 2024 8 7) (ymd2ord 2024 8 9)
          ''Charlie'' ''Not Started'' 0 ''Medium'' 0 [] ''UI/UX Design'' 2000 0]) = []"
  by (simp add: spec_delayed_def check_project_delay_rows seed_row_def date_of_midnight
      date_of_def mk_datetime_def midnight_def seconds_per_day_def ymd2ord_def
      days_before_month_def is_leap_def)

lemma project_visualizations_table:
  "snd (project_visualizations now df) =
     map (\<lambda>r. r\<lparr>Dependencies := fillna [] (Dependencies r),
                End_Date := map_option normalize (End_Date r)\<rparr>) df"
  by (simp add: project_visualizations_def create_gantt_chart_with_dependencies_def
      check_project_delay_def Let_def comp_def)

text \<open>
  Claim C7, as amended. Burn rate, overall progress, budget-vs-actuals, burn-down,
  progress-over-time and resource load only read the table. The dependency view and the delay
  check each write one column of the table they are given: the first replaces every absent
  \<^verbatim>\<open>Dependencies\<close> cell by the empty string, the second replaces every \<^verbatim>\<open>End Date\<close> by its
  midnight (the value it has already where the script calls it, after line 329). After the
  whole pass every row is still there, in order, and its other eleven fields are unchanged;
  and a table with no absent \<^verbatim>\<open>Dependencies\<close> cell whose end dates are at midnight is
  unchanged altogether.
\<close>

theorem visualizations_write_two_columns:
  "snd (project_visualizations now df) =
     map (\<lambda>r. r\<lparr>Dependencies := fillna [] (Dependencies r),
                End_Date := map_option normalize (End_Date r)\<rparr>) df
   \<and> length (snd (project_visualizations now df)) = length df
   \<and> map Task (snd (project_visualizations now df)) = map Task df
   \<and> map Subtask (snd (project_visualizations now df)) = map Subtask df
   \<and> map Start_Date (snd (project_visualizations now df)) = map Start_Date df
   \<and> map Assignee (snd (project_visualizations now df)) = map Assignee df
   \<and> map Status (snd (project_visualizations now df)) = map Status df
   \<and> map Progress (snd (project_visualizations now df)) = map Progress df
   \<and> map Priority (snd (project_visualizations now df)) = map Priority df
   \<and> map Time_Spent (snd (project_visualizations now df)) = map Time_Spent df
   \<and> map Comments (snd (project_visualizations now df)) = map Comments df
   \<and> map Budget (snd (project_visualizations now df)) = map Budget df
   \<and> map Cost (snd (project_visualizations now df)) = map Cost df
   \<and> ((\<forall>r \<in> set df. Dependencies r \<noteq> None
                       \<and> (\<forall>e. End_Date r = Some e \<longrightarrow> e mod 86400 = 0))
        \<longrightarrow> snd (project_visualizations now df) = df)"
proof -
  have clean: "snd (project_visualizations now df) = df"
    if "\<forall>r \<in> set df. Dependencies r \<noteq> None \<and> (\<forall>e. End_Date r = Some e \<longrightarrow> e mod 86400 = 0)"
  proof -
    have "r\<lparr>Dependencies := fillna [] (Dependencies r),
            End_Date := map_option normalize (End_Date r)\<rparr> = r" if "r \<in> set df" for r
    proof -
      from \<open>r \<in> set df\<close>
        \<open>\<forall>r \<in> set df. Dependencies r \<noteq> None \<and> (\<forall>e. End_Date r = Some e \<longrightarrow> e mod 86400 = 0)\<close>
      have d: "Dependencies r \<noteq> None" and e: "\<And>e. End_Date r = Some e \<Longrightarrow> e mod 86400 = 0"
        by auto
      from d have "fillna [] (Dependencies r) = Dependencies r"
        by (auto simp: fillna_def)
      moreover have "map_option normalize (End_Date r) = End_Date r"
        by (cases "End_Date r") (simp_all add: e normalize_idem)
      ultimately show ?thesis by simp
    qed
    then show ?thesis
      by (simp add: project_visualizations_table map_idI)
  qed
  show ?thesis
    by (intro conjI impI clean) (simp_all add: project_visualizations_table comp_def)
qed

theorem visualizations_write_two_columns_witness:
  "map Dependencies seed_data =
     [Some [], Some ''Requirement Gathering'', Some ''UI/UX Design'', Some ''Approval'',
      Some ''Backend Development'', Some ''Frontend Development'', Some ''Unit Testing'',
      Some ''Integration Testing'']
   \<and> snd (project_visualizations (mk_datetime 2024 9 10 14 30 0) seed_data) = seed_data"
proof -
  have deps: "map Dependencies seed_data =
     [Some [], Some ''Requirement Gathering'', Some ''UI/UX Design'', Some ''Approval'',
      Some ''Backend Development'', Some ''Frontend Development'', Some ''Unit Testing'',
      Some ''Integration Testing'']"
    by (simp add: seed_data_def seed_row_def)
  have h: "\<forall>r \<in> set seed_data. Dependencies r \<noteq> None
             \<and> (\<forall>e. End_Date r = Some e \<longrightarrow> e mod 86400 = 0)"
    by (simp add: seed_data_def seed_row_def midnight_def seconds_per_day_def)
  with visualizations_write_two_columns [of "mk_datetime 2024 9 10 14 30 0" seed_data] deps
  show ?thesis by blast
qed

text \<open>
  Claim C7 as stated fails: the dependency view changes the table. A row with no
  \<^verbatim>\<open>Dependencies\<close> value, such as the rows the recurrence expander appends or a row read
  from a file with that field empty, has the empty string there after the view has run.
\<close>

theorem views_not_pure_counterexample:
  "map Dependencies
     [(seed_row ''Design'' ''Approval'' (ymd2ord 2024 8 7) (ymd2ord 2024 8 9)
         ''Charlie'' ''Not Started'' 0 ''Medium'' 0 [] [] 2000 0)\<lparr>Dependencies := None\<rparr>] = [None]
   \<and> map Dependencies (snd (create_gantt_chart_with_dependencies
     [(seed_row ''Design'' ''Approval'' (ymd2ord 2024 8 7) (ymd2ord 2024 8 9)
         ''Charlie'' ''Not Started'' 0 ''Medium'' 0 [] [] 2000 0)\<lparr>Dependencies := None\<rparr>])) =
       [Some []]
   \<and> map Dependencies (snd (project_visualizations (mk_datetime 2024 9 10 9 0 0)
     [(seed_row ''Design'' ''Approval'' (ymd2ord 2024 8 7) (ymd2ord 2024 8 9)
         ''Charlie'' ''Not Started'' 0 ''Medium'' 0 [] [] 2000 0)\<lparr>Dependencies := None\<rparr>])) =
       [Some []]"
  by (simp add: project_visualizations_def create_gantt_chart_with_dependencies_def
      check_project_delay_def fillna_def seed_row_def Let_def)
section \<open>Properties of ingestion and export\<close>

lemma split_on_no_sep: "sep \<notin> set s \<Longrightarrow> split_on sep s = [s]"
  by (induction s) auto

lemma digit_char_is_digit: "digit_char n \<in> set ''0123456789''"
  unfolding digit_char_def by (rule nth_mem) simp

lemma digit_char_not_slash: "digit_char n \<noteq> CHR ''/''" "CHR ''/'' \<noteq> digit_char n"
  using digit_char_is_digit [of n] by auto

lemma isoformat_date_no_slash: "CHR ''/'' \<notin> set (isoformat_date d)"
  by (simp add: isoformat_date_def pad2_def pad4_def digit_char_not_slash split: prod.splits)

lemma isoformat_time_no_slash: "CHR ''/'' \<notin> set (isoformat_time s)"
  by (simp add: isoformat_time_def pad2_def digit_char_not_slash)

lemma strptime_no_slash: "CHR ''/'' \<notin> set s \<Longrightarrow> strptime_mdY s = None"
  by (simp add: strptime_mdY_def split_on_no_sep)

lemma to_datetime_formatted: "to_datetime_mdY (format_datetime_cell date_only c) = None"
  by (cases c)
    (simp_all add: to_datetime_mdY_def format_datetime_cell_def strptime_no_slash
      isoformat_date_no_slash isoformat_time_no_slash)

lemma exported_file_is_csv: "endswith (file_name (exported_file df)) ''.csv''"
  by (simp add: exported_file_def endswith_def)

lemma reimport_row:
  "\<lparr> Task = csv_text (Task r), Subtask = csv_text (Subtask r),
     Start_Date = to_datetime_mdY (format_datetime_cell b (Start_Date r)),
     End_Date = to_datetime_mdY (format_datetime_cell b' (End_Date r)),
     Assignee = csv_text (Assignee r), Status = csv_text (Status r),
     Progress = Progress r, Priority = csv_text (Priority r),
     Time_Spent = Time_Spent r, Comments = csv_text (Comments r),
     Dependencies = csv_text (Dependencies r),
     Budget = Budget r, Cost = Cost r \<rparr> =
   r\<lparr> Task := csv_text (Task r), Subtask := csv_text (Subtask r),
      Start_Date := None, End_Date := None,
      Assignee := csv_text (Assignee r), Status := csv_text (Status r),
      Priority := csv_text (Priority r), Comments := csv_text (Comments r),
      Dependencies := csv_text (Dependencies r) \<rparr>"
  by (cases r) (simp add: to_datetime_formatted)

lemma reimport_all_rows:
  "load_data (exported_file df) =
     Some (map (\<lambda>r. r\<lparr> Task := csv_text (Task r), Subtask := csv_text (Subtask r),
                        Start_Date := None, End_Date := None,
                        Assignee := csv_text (Assignee r), Status := csv_text (Status r),
                        Priority := csv_text (Priority r), Comments := csv_text (Comments r),
                        Dependencies := csv_text (Dependencies r) \<rparr>) df)"
proof -
  have "load_data (exported_file df) = Some (parse_date_columns (to_csv df))"
    using exported_file_is_csv [of df] by (simp add: load_data_def) (simp add: exported_file_def)
  then show ?thesis
    by (simp add: parse_date_columns_def to_csv_def Let_def comp_def reimport_row)
qed

text \<open>
  Claim C5 fails on the code. The name \<^verbatim>\<open>PLAN.CSV\<close> ends in neither \<^verbatim>\<open>.csv\<close> nor \<^verbatim>\<open>.xlsx\<close>
  (the test is case-sensitive): \<^verbatim>\<open>load_data\<close> reports the unsupported format and returns
  \<^verbatim>\<open>None\<close>, and the upload block stores that \<^verbatim>\<open>None\<close> in place of the table the session
  held. The task store is not left unchanged.
\<close>

theorem unsupported_upload_replaces_store:
  "load_data \<lparr> file_name = ''PLAN.CSV'', file_table = to_csv seed_data \<rparr> = None
   \<and> upload_block (Some \<lparr> file_name = ''PLAN.CSV'', file_table = to_csv seed_data \<rparr>)
        (Table seed_data) = PyNone
   \<and> upload_block (Some \<lparr> file_name = ''plan.txt'', file_table = to_csv seed_data \<rparr>)
        (Table seed_data) = PyNone"
  by (simp add: upload_block_def load_data_def endswith_def)

text \<open>
  Claim C6 fails on the code. The export writes the date columns in ISO form, and
  \<^verbatim>\<open>load_data\<close> reads them with the format \<^verbatim>\<open>%m/%d/%Y\<close>, which no ISO date matches: for
  every task store, the table read back from the exported file has every start date and every
  end date unset. For the second row of the seed data, every other field comes back as it
  was, and the two dates are lost.
\<close>

theorem export_reimport_loses_dates:
  "load_data (exported_file df) =
     Some (map (\<lambda>r. r\<lparr> Task := csv_text (Task r), Subtask := csv_text (Subtask r),
                        Start_Date := None, End_Date := None,
                        Assignee := csv_text (Assignee r), Status := csv_text (Status r),
                        Priority := csv_text (Priority r), Comments := csv_text (Comments r),
                        Dependencies := csv_text (Dependencies r) \<rparr>) df)
   \<and> to_csv [seed_row ''Design'' ''UI/UX Design'' (ymd2ord 2024 8 3) (ymd2ord 2024 8 6)
        ''Bob'' ''In Progress'' 60 ''Medium'' 24 ''UI/UX in progress''
        ''Requirement Gathering'' 8000 4000] =
       [\<lparr> Task = Some ''Design'', Subtask = Some ''UI/UX Design'',
          Start_Date = Some ''2024-08-03'', End_Date = Some ''2024-08-06'',
          Assignee = Some ''Bob'', Status = Some ''In Progress'', Progress = Some 60,
          Priority = Some ''Medium'', Time_Spent = Some 24,
          Comments = Some ''UI/UX in progress'', Dependencies = Some ''Requirement Gathering'',
          Budget = Some 8000, Cost = Some 4000 \<rparr>]
   \<and> load_data (exported_file
       [seed_row ''Design'' ''UI/UX Design'' (ymd2ord 2024 8 3) (ymd2ord 2024 8 6)
          ''Bob'' ''In Progress'' 60 ''Medium'' 24 ''UI/UX in progress''
          ''Requirement Gathering'' 8000 4000]) =
       Some [(seed_row ''Design'' ''UI/UX Design'' (ymd2ord 2024 8 3) (ymd2ord 2024 8 6)
          ''Bob'' ''In Progress'' 60 ''Medium'' 24 ''UI/UX in progress''
          ''Requirement Gathering'' 8000 4000)\<lparr>Start_Date := None, End_Date := None\<rparr>]
   \<and> mset (the (load_data (exported_file
       [seed_row ''Design'' ''UI/UX Design'' (ymd2ord 2024 8 3) (ymd2ord 2024 8 6)
          ''Bob'' ''In Progress'' 60 ''Medium'' 24 ''UI/UX in progress''
          ''Requirement Gathering'' 8000 4000]))) \<noteq>
     mset [seed_row ''Design'' ''UI/UX Design'' (ymd2ord 2024 8 3) (ymd2ord 2024 8 6)
          ''Bob'' ''In Progress'' 60 ''Medium'' 24 ''UI/UX in progress''
          ''Requirement Gathering'' 8000 4000]"
proof (intro conjI)
  show "load_data (exported_file df) =
     Some (map (\<lambda>r. r\<lparr> Task := csv_text (Task r), Subtask := csv_text (Subtask r),
                        Start_Date := None, End_Date := None,
                        Assignee := csv_text (Assignee r), Status := csv_text (Status r),
                        Priority := csv_text (Priority r), Comments := csv_text (Comments r),
                        Dependencies := csv_text (Dependencies r) \<rparr>) df)"
    by (rule reimport_all_rows)
  show "to_csv [seed_row ''Design'' ''UI/UX Design'' (ymd2ord 2024 8 3) (ymd2ord 2024 8 6)
        ''Bob'' ''In Progress'' 60 ''Medium'' 24 ''UI/UX in progress''
        ''Requirement Gathering'' 8000 4000] =
       [\<lparr> Task = Some ''Design'', Subtask = Some ''UI/UX Design'',
          Start_Date = Some ''2024-08-03'', End_Date = Some ''2024-08-06'',
          Assignee = Some ''Bob'', Status = Some ''In Progress'', Progress = Some 60,
          Priority = Some ''Medium'', Time_Spent = Some 24,
          Comments = Some ''UI/UX in progress'', Dependencies = Some ''Requirement Gathering'',
          Budget = Some 8000, Cost = Some 4000 \<rparr>]"
    by code_simp
  show reread: "load_data (exported_file
       [seed_row ''Design'' ''UI/UX Design'' (ymd2ord 2024 8 3) (ymd2ord 2024 8 6)
          ''Bob'' ''In Progress'' 60 ''Medium'' 24 ''UI/UX in progress''
          ''Requirement Gathering'' 8000 4000]) =
       Some [(seed_row ''Design'' ''UI/UX Design'' (ymd2ord 2024 8 3) (ymd2ord 2024 8 6)
          ''Bob'' ''In Progress'' 60 ''Medium'' 24 ''UI/UX in progress''
          ''Requirement Gathering'' 8000 4000)\<lparr>Start_Date := None, End_Date := None\<rparr>]"
    by (simp add: reimport_all_rows seed_row_def csv_text_def)
  show "mset (the (load_data (exported_file
       [seed_row ''Design'' ''UI/UX Design'' (ymd2ord 2024 8 3) (ymd2ord 2024 8 6)
          ''Bob'' ''In Progress'' 60 ''Medium'' 24 ''UI/UX in progress''
          ''Requirement Gathering'' 8000 4000]))) \<noteq>
     mset [seed_row ''Design'' ''UI/UX Design'' (ymd2ord 2024 8 3) (ymd2ord 2024 8 6)
          ''Bob'' ''In Progress'' 60 ''Medium'' 24 ''UI/UX in progress''
          ''Requirement Gathering'' 8000 4000]"
    by (simp add: reread) (simp add: seed_row_def)
qed

lemma normalization_block_map:
  "normalization_block df =
     map (\<lambda>r. r\<lparr> Subtask := fillna [] (Subtask r),
                 Priority := replace_text [] ''Medium'' (Priority r),
                 Progress := replace_blank 0 (Progress r),
                 Time_Spent := replace_blank 0 (Time_Spent r) \<rparr>) df"
  by (simp add: normalization_block_def Let_def comp_def)

text \<open>
  Claim C9, as amended. The normalisation block rejects nothing: every row of the batch stays
  in the store, at its place. In each row, a progress or time-spent cell that holds the empty
  string becomes 0, and one that holds a number keeps it, a negative number included; the
  task, the dates, the assignee, the status, the comments, the dependencies, the budget and
  the cost are left as they are.
\<close>

theorem normalization_keeps_every_row:
  "length (normalization_block df) = length df
   \<and> (\<forall>i < length df.
        (Progress (df ! i) = Str [] \<longrightarrow> Progress (normalization_block df ! i) = Num 0)
      \<and> (\<forall>n. Progress (df ! i) = Num n \<longrightarrow> Progress (normalization_block df ! i) = Num n)
      \<and> (Time_Spent (df ! i) = Str [] \<longrightarrow> Time_Spent (normalization_block df ! i) = Num 0)
      \<and> (\<forall>n. Time_Spent (df ! i) = Num n \<longrightarrow> Time_Spent (normalization_block df ! i) = Num n)
      \<and> Task (normalization_block df ! i) = Task (df ! i)
      \<and> Start_Date (normalization_block df ! i) = Start_Date (df ! i)
      \<and> End_Date (normalization_block df ! i) = End_Date (df ! i)
      \<and> Assignee (normalization_block df ! i) = Assignee (df ! i)
      \<and> Status (normalization_block df ! i) = Status (df ! i)
      \<and> Comments (normalization_block df ! i) = Comments (df ! i)
      \<and> Dependencies (normalization_block df ! i) = Dependencies (df ! i)
      \<and> Budget (normalization_block df ! i) = Budget (df ! i)
      \<and> Cost (normalization_block df ! i) = Cost (df ! i))"
  by (simp add: normalization_block_map replace_blank_def)

theorem normalization_keeps_every_row_witness:
  "length (normalization_block
      [example_raw_row (Str []) (Num (- 3)), example_raw_row (Num (- 5)) (Str [])]) = 2
   \<and> Progress (normalization_block
      [example_raw_row (Str []) (Num (- 3)), example_raw_row (Num (- 5)) (Str [])] ! 0) = Num 0
   \<and> Time_Spent (normalization_block
      [example_raw_row (Str []) (Num (- 3)), example_raw_row (Num (- 5)) (Str [])] ! 0) = Num (- 3)
   \<and> Progress (normalization_block
      [example_raw_row (Str []) (Num (- 3)), example_raw_row (Num (- 5)) (Str [])] ! 1) = Num (- 5)
   \<and> Time_Spent (normalization_block
      [example_raw_row (Str []) (Num (- 3)), example_raw_row (Num (- 5)) (Str [])] ! 1) = Num 0"
  using normalization_keeps_every_row
    [of "[example_raw_row (Str []) (Num (- 3)), example_raw_row (Num (- 5)) (Str [])]"]
  by (simp add: example_raw_row_def All_less_Suc2 numeral_2_eq_2)

text \<open>
  Claim C9 as stated fails: a row with progress -5 and time spent -3 is not rejected. It is in
  the store after the normalisation block, with both values as they were.
\<close>

theorem negative_progress_kept_counterexample:
  "normalization_block [example_raw_row (Num (- 5)) (Num (- 3))] =
     [(example_raw_row (Num (- 5)) (Num (- 3)))\<lparr>Subtask := Some [], Priority := Some ''Medium''\<rparr>]
   \<and> Progress (hd (normalization_block [example_raw_row (Num (- 5)) (Num (- 3))])) = Num (- 5)
   \<and> Time_Spent (hd (normalization_block [example_raw_row (Num (- 5)) (Num (- 3))])) = Num (- 3)"
  by (simp add: normalization_block_map example_raw_row_def fillna_def replace_text_def
      replace_blank_def)

end
